theory Spec2Isabelle
  imports Main
begin

section \<open>LDAP to JIRA user mapping: the data model of \<open>ldap2jira/map.py\<close>\<close>

text \<open>
  The match scores are the module constants \<open>NO_MATCH = 0\<close>, \<open>PARTIAL_MATCH = 1\<close>
  and \<open>MATCH = 2\<close>.
\<close>

definition NO_MATCH :: int where
  "NO_MATCH = 0"

definition PARTIAL_MATCH :: int where
  "PARTIAL_MATCH = 1"

definition MATCH :: int where
  "MATCH = 2"

text \<open>
  An LDAP result is a dict from field name to value. \<open>LDAPLookup\<close> is not among the sources;
  the values are taken to be strings, as the code uses them (as set elements, as search text
  and in comparisons with JIRA names and emails), the empty string being the false one.
  A JIRA account is an object whose attributes \<open>name\<close>, \<open>emailAddress\<close> and \<open>displayName\<close>
  may be missing: reading a missing attribute raises \<open>AttributeError\<close>, so each attribute is
  an option.
\<close>

type_synonym ldap_account = "string \<rightharpoonup> string"

record jira_user_resource =
  name :: "string option"
  emailAddress :: "string option"
  displayName :: "string option"

datatype error =
    ValueError string
  | AttributeError
  | IndexError
  | JSONDecodeError

text \<open>The attributes of an \<open>LDAP2JiraUserMap\<close> instance that \<open>__init__\<close> sets from its arguments,
  and \<open>self.map\<close> (here \<open>map_attr\<close>). The lazily built adapter handles \<open>_ldap\<close> and \<open>_jira\<close>
  and the opaque \<open>jira_extra_kwargs\<close> only serve to reach the two external services, which
  the model takes as parameters (\<open>world\<close> below).\<close>

record LDAP2JiraUserMap =
  jira_url :: string
  jira_user :: "string option"
  jira_password :: "string option"
  jira_auth_token :: "string option"
  ldap_url :: string
  ldap_base :: string
  ldap_query_fields_username :: "string list"
  ldap_fields_username :: "string list"
  ldap_fields_mail :: "string list"
  ldap_fields_name :: "string list"
  ldap_fields_jira_search :: "string list"
  email_domain :: string
  map_file :: "string option"
  map_attr :: "string \<rightharpoonup> string"

text \<open>Python truth value of an optional string argument: \<open>None\<close> and \<open>''\<close> are false.\<close>

fun truthy :: "string option \<Rightarrow> bool" where
  "truthy None = False"
| "truthy (Some s) = (s \<noteq> [])"

text \<open>\<open>str.lstrip('@')\<close> and \<open>str.endswith\<close>.\<close>

definition lstrip_at :: "string \<Rightarrow> string" where
  "lstrip_at s = dropWhile (\<lambda>c. c = CHR ''@'') s"

definition endswith :: "string \<Rightarrow> string \<Rightarrow> bool" where
  "endswith s suffix_str =
     (length suffix_str \<le> length s \<and> drop (length s - length suffix_str) s = suffix_str)"

text \<open>
  \<open>LDAP2JiraUserMap.__init__\<close> (lines 85-130). The credential check comes first and raises
  \<open>ValueError\<close>; otherwise the attributes are stored, the email domain with its leading
  \<open>@\<close> characters stripped and the map empty.
\<close>

definition init ::
  "string \<Rightarrow> string \<Rightarrow> string \<Rightarrow> string list \<Rightarrow> string list \<Rightarrow> string list \<Rightarrow> string list
   \<Rightarrow> string list \<Rightarrow> string \<Rightarrow> string option \<Rightarrow> string option \<Rightarrow> string option \<Rightarrow> string option
   \<Rightarrow> error + LDAP2JiraUserMap" where
  "init jira_url' ldap_url' ldap_base' ldap_query_fields_username' ldap_fields_username'
        ldap_fields_mail' ldap_fields_name' ldap_fields_jira_search' email_domain' map_file'
        jira_user' jira_password' jira_auth_token' =
     (if (truthy jira_user' \<or> truthy jira_password')
         \<and> \<not> (truthy jira_user' \<and> truthy jira_password')
      then Inl (ValueError ''JIRA user and password required for basic auth.'')
      else if \<not> (truthy jira_user' \<or> truthy jira_password') \<and> \<not> truthy jira_auth_token'
      then Inl (ValueError ''JIRA user/password or auth token required.'')
      else Inr \<lparr> jira_url = jira_url',
                 jira_user = jira_user',
                 jira_password = jira_password',
                 jira_auth_token = jira_auth_token',
                 ldap_url = ldap_url',
                 ldap_base = ldap_base',
                 ldap_query_fields_username = ldap_query_fields_username',
                 ldap_fields_username = ldap_fields_username',
                 ldap_fields_mail = ldap_fields_mail',
                 ldap_fields_name = ldap_fields_name',
                 ldap_fields_jira_search = ldap_fields_jira_search',
                 email_domain = lstrip_at email_domain',
                 map_file = map_file',
                 map_attr = Map.empty \<rparr>)"

text \<open>
  The set comprehension \<open>{ldap_account[f] for f in fields if f in ldap_account}\<close>
  of \<open>_ldap_jira_match\<close>.
\<close>

definition ldap_values :: "ldap_account \<Rightarrow> string list \<Rightarrow> string set" where
  "ldap_values ldap_acc fs = set (List.map_filter ldap_acc fs)"

text \<open>
  \<open>_ldap_jira_match\<close> (lines 193-244). The \<open>try\<close> block reads \<open>name\<close>, \<open>emailAddress\<close> and
  \<open>displayName\<close>; a missing one ends the comparison with \<open>NO_MATCH\<close>. The debug and warning
  log records of this method carry nothing the score depends on and are not modelled.
\<close>

definition ldap_jira_match :: "LDAP2JiraUserMap \<Rightarrow> ldap_account \<Rightarrow> jira_user_resource \<Rightarrow> int" where
  "ldap_jira_match self ldap_acc jira_acc =
     (case name jira_acc of
        None \<Rightarrow> NO_MATCH
      | Some jira_username \<Rightarrow>
     (case emailAddress jira_acc of
        None \<Rightarrow> NO_MATCH
      | Some jira_email \<Rightarrow>
     (case displayName jira_acc of
        None \<Rightarrow> NO_MATCH
      | Some jira_display \<Rightarrow>
          if endswith jira_email (CHR ''@'' # email_domain self) then
            (let ldap_emails = ldap_values ldap_acc (ldap_fields_mail self);
                 ldap_usernames = ldap_values ldap_acc (ldap_fields_username self);
                 email_match = (jira_email \<in> ldap_emails);
                 username_match = (jira_username \<in> ldap_usernames)
             in if email_match \<or> username_match then MATCH
                else (let ldap_names = ldap_values ldap_acc (ldap_fields_name self)
                      in if {jira_username, jira_display} \<inter> ldap_names \<noteq> {}
                         then PARTIAL_MATCH
                         else NO_MATCH))
          else NO_MATCH)))"

section \<open>The external services and the trace of effects\<close>

text \<open>
  The directory (\<open>LDAPLookup.query\<close>) and the ticket system (\<open>JIRA.search_users\<close>) are
  external: the model takes what they answer as parameters. \<open>ldap_lookup_query\<close> receives the
  query, the query fields and the return fields; \<open>jira_search_users\<close> the query and
  \<open>maxResults\<close>.
\<close>

record world =
  ldap_lookup_query :: "string \<Rightarrow> string list \<Rightarrow> string set \<Rightarrow> ldap_account list"
  jira_search_users :: "string \<Rightarrow> nat \<Rightarrow> jira_user_resource list"

datatype level = DEBUG | INFO | WARNING | ERROR

text \<open>
  The extra line of a \<open>_update_user\<close> log record. For the ambiguous verdict it is
  \<open>'Possible matches: ' + ', '.join(...)\<close> over a Python set, whose iteration order the
  model leaves open: the record carries the set.
\<close>

datatype log_extra = Text string | Possible_matches "string set"

text \<open>
  What a call of \<open>_process_username\<close> does to the outside, in order: the directory query, the
  ticket searches, the log record of each \<open>_update_user\<close> call (level, status, the name
  passed as \<open>username\<close>, extra line) and \<open>log.error\<close> (format string and arguments). The
  info and debug records of lines 190, 272 and 306 are not modelled.
\<close>

datatype event =
    LdapQuery string "string list" "string set"
  | JiraSearch string nat
  | LogUpdateUser level string string log_extra
  | LogError string "string list"

text \<open>The result dict of one user name; each key may be absent.\<close>

record user_dict =
  username_key :: "string option"
  status_key :: "string option"
  jira_account_key :: "string option"
  jira_results_key :: "string set option"

text \<open>\<open>ldap_query\<close> (lines 176-187) and \<open>jira_search_user\<close> (lines 189-191).\<close>

definition ldap_query :: "LDAP2JiraUserMap \<Rightarrow> world \<Rightarrow> string \<Rightarrow> ldap_account list" where
  "ldap_query self w query =
     (let return_fields = set (ldap_fields_username self @ ldap_fields_mail self
                               @ ldap_fields_jira_search self)
      in ldap_lookup_query w query (ldap_query_fields_username self) return_fields)"

definition ldap_query_event :: "LDAP2JiraUserMap \<Rightarrow> string \<Rightarrow> event" where
  "ldap_query_event self query =
     LdapQuery query (ldap_query_fields_username self)
       (set (ldap_fields_username self @ ldap_fields_mail self @ ldap_fields_jira_search self))"

definition jira_search_user :: "LDAP2JiraUserMap \<Rightarrow> world \<Rightarrow> string \<Rightarrow> jira_user_resource list" where
  "jira_search_user self w query = jira_search_users w query 10"

text \<open>\<open>_update_user\<close> (lines 246-260): sets the status and writes one log record.\<close>

definition update_user ::
  "user_dict \<Rightarrow> string \<Rightarrow> string \<Rightarrow> log_extra \<Rightarrow> level \<Rightarrow> user_dict \<times> event" where
  "update_user ud uname status extra lvl =
     (ud\<lparr>status_key := Some status\<rparr>, LogUpdateUser lvl status uname extra)"

section \<open>\<open>_process_username\<close>\<close>

text \<open>
  Lines 299-310: the values to search JIRA for. The loop over the configured fields, with
  the list collected so far as accumulator.
\<close>

fun build_jira_queries :: "ldap_account \<Rightarrow> string list \<Rightarrow> string list \<Rightarrow> string list" where
  "build_jira_queries ldap_acc [] jira_queries = jira_queries"
| "build_jira_queries ldap_acc (field # rest) jira_queries =
     (case ldap_acc field of
        None \<Rightarrow> build_jira_queries ldap_acc rest jira_queries
      | Some v \<Rightarrow>
          if v = [] then build_jira_queries ldap_acc rest jira_queries
          else if v \<notin> set jira_queries
               then build_jira_queries ldap_acc rest (jira_queries @ [v])
               else build_jira_queries ldap_acc rest jira_queries)"

text \<open>
  The variables of the search loops (lines 313-341): the set \<open>jira_account_usernames\<close>, the
  list \<open>partial_single_matches\<close>, the result dict and the trace so far.
\<close>

record loop_state =
  jira_account_usernames :: "string set"
  partial_single_matches :: "string list"
  user_dict_var :: user_dict
  trace :: "event list"

text \<open>Lines 313-314: both collections start empty.\<close>

definition initial_state :: "user_dict \<Rightarrow> event list \<Rightarrow> loop_state" where
  "initial_state ud tr =
     \<lparr> jira_account_usernames = {}, partial_single_matches = [],
       user_dict_var = ud, trace = tr \<rparr>"

definition new_user_dict :: "string \<Rightarrow> user_dict" where
  "new_user_dict uname =
     \<lparr> username_key = Some uname, status_key = None,
       jira_account_key = None, jira_results_key = None \<rparr>"

text \<open>
  The inner loop (lines 320-337) over the accounts of one search. \<open>jira_account.name\<close> is read
  outside any \<open>try\<close>: an account without a name raises \<open>AttributeError\<close>. A \<open>MATCH\<close> breaks
  the loop.
\<close>

fun accounts_loop ::
  "LDAP2JiraUserMap \<Rightarrow> ldap_account \<Rightarrow> bool \<Rightarrow> jira_user_resource list \<Rightarrow> loop_state
   \<Rightarrow> (error \<times> event list) + loop_state" where
  "accounts_loop self ldap_acc single_result [] st = Inr st"
| "accounts_loop self ldap_acc single_result (jira_acc # rest) st =
     (case name jira_acc of
        None \<Rightarrow> Inl (AttributeError, trace st)
      | Some n \<Rightarrow>
          if n \<in> jira_account_usernames st \<and> \<not> single_result
          then accounts_loop self ldap_acc single_result rest st
          else
            (let st1 = st\<lparr>jira_account_usernames := insert n (jira_account_usernames st)\<rparr>;
                 match = ldap_jira_match self ldap_acc jira_acc
             in if match = MATCH then
                  (let (ud, ev) = update_user (user_dict_var st1) n ''found'' (Text []) INFO
                   in Inr (st1\<lparr>user_dict_var := ud\<lparr>jira_account_key := Some n\<rparr>,
                                trace := trace st1 @ [ev]\<rparr>))
                else if match = PARTIAL_MATCH \<and> single_result then
                  (if n \<notin> set (partial_single_matches st1)
                   then accounts_loop self ldap_acc single_result rest
                          (st1\<lparr>partial_single_matches := partial_single_matches st1 @ [n]\<rparr>)
                   else accounts_loop self ldap_acc single_result rest st1)
                else accounts_loop self ldap_acc single_result rest st1))"

text \<open>
  The outer loop (lines 316-341) over the search values; it breaks once the result dict has
  a \<open>jira-account\<close>.
\<close>

fun queries_loop ::
  "LDAP2JiraUserMap \<Rightarrow> world \<Rightarrow> ldap_account \<Rightarrow> string list \<Rightarrow> loop_state
   \<Rightarrow> (error \<times> event list) + loop_state" where
  "queries_loop self w ldap_acc [] st = Inr st"
| "queries_loop self w ldap_acc (query # rest) st =
     (let result_jira_accounts = jira_search_user self w query;
          st0 = st\<lparr>trace := trace st @ [JiraSearch query 10]\<rparr>;
          single_result = (length result_jira_accounts = 1)
      in case accounts_loop self ldap_acc single_result result_jira_accounts st0 of
           Inl e \<Rightarrow> Inl e
         | Inr st1 \<Rightarrow>
             if jira_account_key (user_dict_var st1) \<noteq> None then Inr st1
             else queries_loop self w ldap_acc rest st1)"

text \<open>Lines 343-362: the verdict after the search loops.\<close>

definition verdict :: "string \<Rightarrow> loop_state \<Rightarrow> user_dict \<times> event list" where
  "verdict uname st =
     (if jira_account_usernames st = {} then
        (let (ud, ev) = update_user (user_dict_var st) uname ''missing'' (Text []) WARNING
         in (ud, trace st @ [ev]))
      else
        (let (ud1, tr1) =
               (if length (partial_single_matches st) = 1 then
                  (let (ud, ev) = update_user (user_dict_var st) (hd (partial_single_matches st))
                                    ''found'' (Text ''Single Partial'') INFO
                   in (ud\<lparr>jira_account_key := Some (hd (partial_single_matches st))\<rparr>,
                       trace st @ [ev]))
                else (user_dict_var st, trace st))
         in if jira_account_key ud1 = None then
              (let ud2 = ud1\<lparr>jira_results_key := Some (jira_account_usernames st)\<rparr>;
                   (ud3, ev) = update_user ud2 uname ''ambiguous''
                                 (Possible_matches (jira_account_usernames st)) WARNING
               in (ud3, tr1 @ [ev]))
            else (ud1, tr1)))"

text \<open>
  \<open>_process_username\<close> (lines 262-362). The result is the dict and the trace, or the exception
  with the trace up to it.
\<close>

definition process_username ::
  "LDAP2JiraUserMap \<Rightarrow> world \<Rightarrow> string \<Rightarrow> (error \<times> event list) + (user_dict \<times> event list)" where
  "process_username self w uname =
     (let user_dict0 = new_user_dict uname
      in if uname = [] then Inr (user_dict0, [])
         else
           (case map_attr self uname of
              Some mapped \<Rightarrow>
                (let (ud, ev) = update_user user_dict0 mapped ''found'' (Text ''File Map'') INFO
                 in Inr (ud\<lparr>jira_account_key := Some mapped\<rparr>, [ev]))
            | None \<Rightarrow>
                (let ldap_results = ldap_query self w uname;
                     tr0 = [ldap_query_event self uname]
                 in if ldap_results = [] then
                      (let (ud, ev) = update_user user_dict0 uname ''not_in_ldap'' (Text []) WARNING
                       in Inr (ud, tr0 @ [ev]))
                    else if length ldap_results > 1 then
                      (let (ud, ev) = update_user user_dict0 uname ''missing'' (Text []) WARNING
                       in Inr (ud, tr0 @ [ev, LogError ''Multiple LDAP records for uid %s'' [uname]]))
                    else
                      (let ldap_acc = hd ldap_results;
                           jira_queries =
                             build_jira_queries ldap_acc (ldap_fields_jira_search self) []
                       in case queries_loop self w ldap_acc jira_queries
                                 (initial_state user_dict0 tr0) of
                            Inl e \<Rightarrow> Inl e
                          | Inr st \<Rightarrow> Inr (verdict uname st)))))"

section \<open>The map file and the batch\<close>

text \<open>
  The file system and the parsers of the standard library, as parameters:
  \<open>os.path.exists\<close>, the extension \<open>os.path.splitext(filename)[1]\<close>, the dict \<open>json.load\<close>
  reads from the file of that name, and the rows \<open>csv.reader\<close> yields.
\<close>

record os_env =
  path_exists :: "string \<Rightarrow> bool"
  splitext_ext :: "string \<Rightarrow> string"
  json_load :: "string \<Rightarrow> error + (string \<rightharpoonup> string)"
  csv_reader :: "string \<Rightarrow> string list list"

text \<open>The dict comprehension \<open>{val_list[0]: val_list[1] for val_list in rows}\<close>; a row with
  fewer than two cells raises \<open>IndexError\<close>.\<close>

fun csv_map :: "string list list \<Rightarrow> (string \<rightharpoonup> string) \<Rightarrow> error + (string \<rightharpoonup> string)" where
  "csv_map [] fmap = Inr fmap"
| "csv_map (val_list # rest) fmap =
     (case val_list of
        k # v # _ \<Rightarrow> csv_map rest (fmap(k \<mapsto> v))
      | _ \<Rightarrow> Inl IndexError)"

text \<open>\<open>load_map\<close> (lines 155-174); the warning record for a missing file is not modelled.\<close>

definition load_map :: "os_env \<Rightarrow> string option \<Rightarrow> error + (string \<rightharpoonup> string)" where
  "load_map os filename =
     (if \<not> truthy filename then Inr Map.empty
      else
        (let fname = the filename
         in if \<not> path_exists os fname then Inr Map.empty
            else
              (let file_extension = splitext_ext os fname
               in if file_extension = ''.json'' then json_load os fname
                  else if file_extension = ''.csv'' then csv_map (csv_reader os fname) Map.empty
                  else Inr Map.empty)))"

text \<open>
  The collection loop of \<open>find_jira_accounts\<close> (lines 408-419). The worker pool is modelled
  by the schedule in which the tasks complete in input order; an exception of a task is
  raised again by \<open>result()\<close>. \<open>pop('username')\<close> removes the key from the dict that is stored.
\<close>

fun collect_users ::
  "LDAP2JiraUserMap \<Rightarrow> world \<Rightarrow> string list \<Rightarrow> (string \<rightharpoonup> user_dict)
   \<Rightarrow> error + (string \<rightharpoonup> user_dict)" where
  "collect_users self w [] users = Inr users"
| "collect_users self w (uname # rest) users =
     (case process_username self w uname of
        Inl (e, _) \<Rightarrow> Inl e
      | Inr (user_d, _) \<Rightarrow>
          (case username_key user_d of
             None \<Rightarrow> collect_users self w rest users
           | Some popped \<Rightarrow>
               if popped \<noteq> []
               then collect_users self w rest (users(popped \<mapsto> user_d\<lparr>username_key := None\<rparr>))
               else collect_users self w rest users))"

text \<open>
  \<open>find_jira_accounts\<close> (lines 364-421): \<open>self.map.update(self.load_map(self.map_file))\<close>, then
  the batch. The instance is returned with its updated map; when \<open>load_map\<close> raises, the
  map is unchanged.
\<close>

definition find_jira_accounts ::
  "LDAP2JiraUserMap \<Rightarrow> os_env \<Rightarrow> world \<Rightarrow> string list
   \<Rightarrow> LDAP2JiraUserMap \<times> (error + (string \<rightharpoonup> user_dict))" where
  "find_jira_accounts self os w usernames =
     (case load_map os (map_file self) of
        Inl e \<Rightarrow> (self, Inl e)
      | Inr fmap \<Rightarrow>
          (let self1 = self\<lparr>map_attr := map_attr self ++ fmap\<rparr>
           in (self1, collect_users self1 w usernames Map.empty)))"

text \<open>Successive calls on one instance, each with the file system and services of its time.\<close>

fun find_jira_accounts_calls ::
  "LDAP2JiraUserMap \<Rightarrow> (os_env \<times> world \<times> string list) list \<Rightarrow> LDAP2JiraUserMap" where
  "find_jira_accounts_calls self [] = self"
| "find_jira_accounts_calls self ((os, w, usernames) # rest) =
     find_jira_accounts_calls (fst (find_jira_accounts self os w usernames)) rest"

section \<open>Notions in which the claims are stated\<close>

text \<open>
  The seed sequence in the specification's words: of the values of the configured fields,
  in order, the empty ones are dropped and every value is kept where it is first seen.
\<close>

fun first_seen :: "'a list \<Rightarrow> 'a list" where
  "first_seen [] = []"
| "first_seen (x # xs) = x # first_seen (removeAll x xs)"

definition seed_sequence :: "ldap_account \<Rightarrow> string list \<Rightarrow> string list" where
  "seed_sequence ldap_acc fs = first_seen (filter (\<lambda>v. v \<noteq> []) (List.map_filter ldap_acc fs))"

text \<open>The account ids that a list of accounts shows, and those all searches of a run show.\<close>

definition account_names :: "jira_user_resource list \<Rightarrow> string set" where
  "account_names accs = set (List.map_filter name accs)"

definition observed_names :: "LDAP2JiraUserMap \<Rightarrow> world \<Rightarrow> string list \<Rightarrow> string set" where
  "observed_names self w queries = \<Union> (set (map (\<lambda>q. account_names (jira_search_user self w q)) queries))"

text \<open>An account id comes from a single-result search that scored \<open>PARTIAL_MATCH\<close>.\<close>

definition single_partial ::
  "LDAP2JiraUserMap \<Rightarrow> world \<Rightarrow> ldap_account \<Rightarrow> string list \<Rightarrow> string \<Rightarrow> bool" where
  "single_partial self w ldap_acc queries n =
     list_ex (\<lambda>q. case jira_search_user self w q of
                    [acc] \<Rightarrow> name acc = Some n \<and> ldap_jira_match self ldap_acc acc = PARTIAL_MATCH
                  | _ \<Rightarrow> False) queries"


section \<open>Example data\<close>

definition ex_self :: LDAP2JiraUserMap where
  "ex_self =
     \<lparr> jira_url = ''https://issues.example.org'', jira_user = None, jira_password = None,
       jira_auth_token = Some ''secret'', ldap_url = ''ldap://ldaphost'',
       ldap_base = ''ou=users'', ldap_query_fields_username = [''uid''],
       ldap_fields_username = [''uid''], ldap_fields_mail = [''mail''],
       ldap_fields_name = [''cn''], ldap_fields_jira_search = [''uid'', ''cn''],
       email_domain = ''corp.com'', map_file = Some ''map.json'',
       map_attr = [''alice'' \<mapsto> ''alice.j''] \<rparr>"

definition ex_ldap_bob :: ldap_account where
  "ex_ldap_bob = [''uid'' \<mapsto> ''bob'', ''cn'' \<mapsto> ''Bob Smith'', ''mail'' \<mapsto> ''bob@corp.com'']"

definition acc_bob :: jira_user_resource where
  "acc_bob = \<lparr> name = Some ''bob'', emailAddress = Some ''bob@corp.com'',
               displayName = Some ''Bob Smith'' \<rparr>"

definition acc_robert :: jira_user_resource where
  "acc_robert = \<lparr> name = Some ''robert'', emailAddress = Some ''robert@corp.com'',
                  displayName = Some ''Bob Smith'' \<rparr>"

definition acc_bsmith :: jira_user_resource where
  "acc_bsmith = \<lparr> name = Some ''bsmith'', emailAddress = Some ''bsmith@corp.com'',
                  displayName = Some ''Bob Smith'' \<rparr>"

definition acc_outsider :: jira_user_resource where
  "acc_outsider = \<lparr> name = Some ''bob'', emailAddress = Some ''bob@other.org'',
                    displayName = Some ''Bob Smith'' \<rparr>"

text \<open>
  A directory with one record for \<open>bob\<close>, two for \<open>dup\<close> and none otherwise, and a ticket
  system that answers the searches for \<open>bob\<close> and for \<open>Bob Smith\<close> with the given lists.
\<close>

definition ex_world :: "jira_user_resource list \<Rightarrow> jira_user_resource list \<Rightarrow> world" where
  "ex_world by_uid by_cn =
     \<lparr> ldap_lookup_query =
         (\<lambda>q qf rf. if q = ''bob'' then [ex_ldap_bob]
                    else if q = ''dup'' then [ex_ldap_bob, ex_ldap_bob] else []),
       jira_search_users =
         (\<lambda>q n. if q = ''bob'' then by_uid else if q = ''Bob Smith'' then by_cn else []) \<rparr>"


section \<open>Strings, construction and the scorer\<close>

lemmas score_defs = NO_MATCH_def PARTIAL_MATCH_def MATCH_def

lemma endswith_iff: "endswith s t \<longleftrightarrow> (\<exists>p. s = p @ t)"
proof
  assume "endswith s t"
  then have "s = take (length s - length t) s @ t"
    by (metis append_take_drop_id endswith_def)
  then show "\<exists>p. s = p @ t" ..
next
  assume "\<exists>p. s = p @ t"
  then show "endswith s t" by (auto simp: endswith_def)
qed

lemma lstrip_at_replicate: "lstrip_at (replicate n (CHR ''@'') @ d) = lstrip_at d"
  by (induction n) (simp_all add: lstrip_at_def)

lemma lstrip_at_no_leading: "lstrip_at d = [] \<or> hd (lstrip_at d) \<noteq> CHR ''@''"
  unfolding lstrip_at_def using hd_dropWhile[of "\<lambda>c. c = CHR ''@''" d] by blast

lemma init_eq:
  "init ju lu lb qf uf mf nf sf d mfile u p t =
     (if truthy u \<and> truthy p \<or> \<not> truthy u \<and> \<not> truthy p \<and> truthy t
      then Inr \<lparr> jira_url = ju, jira_user = u, jira_password = p, jira_auth_token = t,
                 ldap_url = lu, ldap_base = lb, ldap_query_fields_username = qf,
                 ldap_fields_username = uf, ldap_fields_mail = mf, ldap_fields_name = nf,
                 ldap_fields_jira_search = sf, email_domain = lstrip_at d,
                 map_file = mfile, map_attr = Map.empty \<rparr>
      else if truthy u \<or> truthy p
      then Inl (ValueError ''JIRA user and password required for basic auth.'')
      else Inl (ValueError ''JIRA user/password or auth token required.''))"
  unfolding init_def by (cases "truthy u"; cases "truthy p"; cases "truthy t"; simp)

lemma init_replicate:
  "init ju lu lb qf uf mf nf sf (replicate n (CHR ''@'') @ d) mfile u p t
   = init ju lu lb qf uf mf nf sf d mfile u p t"
  by (simp only: init_eq lstrip_at_replicate)

lemma init_email_domain:
  assumes "init ju lu lb qf uf mf nf sf d mfile u p t = Inr s"
  shows "email_domain s = lstrip_at d"
proof (cases "truthy u \<and> truthy p \<or> \<not> truthy u \<and> \<not> truthy p \<and> truthy t")
  case True
  with assms have "s = \<lparr> jira_url = ju, jira_user = u, jira_password = p, jira_auth_token = t,
                 ldap_url = lu, ldap_base = lb, ldap_query_fields_username = qf,
                 ldap_fields_username = uf, ldap_fields_mail = mf, ldap_fields_name = nf,
                 ldap_fields_jira_search = sf, email_domain = lstrip_at d,
                 map_file = mfile, map_attr = Map.empty \<rparr>"
    by (simp only: init_eq if_True sum.inject)
  then show ?thesis by simp
next
  case False
  have "\<And>e. init ju lu lb qf uf mf nf sf d mfile u p t \<noteq> Inr s"
    using False by (simp only: init_eq if_False) (cases "truthy u \<or> truthy p"; simp)
  with assms show ?thesis by blast
qed

section \<open>The seed sequence\<close>

lemma set_first_seen: "set (first_seen xs) = set xs"
  by (induction xs rule: first_seen.induct) auto

lemma distinct_first_seen: "distinct (first_seen xs)"
  by (induction xs rule: first_seen.induct) (auto simp: set_first_seen)

lemma removeAll_filter: "removeAll v (filter P xs) = filter (\<lambda>x. P x \<and> x \<noteq> v) xs"
  by (induction xs) auto

lemma filter_snoc_removeAll:
  "filter (\<lambda>x. x \<notin> set (acc @ [v])) ys = removeAll v (filter (\<lambda>x. x \<notin> set acc) ys)"
  by (induction ys) auto

lemma set_map_filter: "set (List.map_filter la fs) = {v. \<exists>f \<in> set fs. la f = Some v}"
  by (induction fs) (auto simp: List.map_filter_simps split: option.splits)

lemma build_jira_queries_acc:
  "build_jira_queries la fs acc =
     acc @ first_seen (filter (\<lambda>v. v \<notin> set acc)
                         (filter (\<lambda>v. v \<noteq> []) (List.map_filter la fs)))"
proof (induction fs arbitrary: acc)
  case Nil
  then show ?case by (simp add: List.map_filter_simps)
next
  case (Cons f fs)
  show ?case
  proof (cases "la f")
    case None
    then show ?thesis using Cons.IH[of acc] by (simp add: List.map_filter_simps)
  next
    case (Some v)
    show ?thesis
    proof (cases "v = [] \<or> v \<in> set acc")
      case True
      then show ?thesis using Some Cons.IH[of acc] by (auto simp: List.map_filter_simps)
    next
      case False
      let ?ys = "filter (\<lambda>v. v \<noteq> []) (List.map_filter la fs)"
      have "build_jira_queries la (f # fs) acc = build_jira_queries la fs (acc @ [v])"
        using False Some by simp
      also have "\<dots> = (acc @ [v]) @ first_seen (removeAll v (filter (\<lambda>x. x \<notin> set acc) ?ys))"
        by (simp only: Cons.IH[of "acc @ [v]"] filter_snoc_removeAll)
      also have "\<dots> = acc @ first_seen (v # filter (\<lambda>x. x \<notin> set acc) ?ys)"
        by simp
      also have "v # filter (\<lambda>x. x \<notin> set acc) ?ys
                 = filter (\<lambda>x. x \<notin> set acc)
                     (filter (\<lambda>v. v \<noteq> []) (List.map_filter la (f # fs)))"
        using False Some by (simp add: List.map_filter_simps)
      finally show ?thesis .
    qed
  qed
qed

text \<open>
  Claim C8. The search values built from the single directory record are the values of the
  configured ticket-search fields in their configured order, without the fields that are
  absent from the record or empty, each value kept only where it is first seen: the list
  equals \<open>seed_sequence\<close>, has no duplicates and holds exactly the non-empty values of the
  configured fields.
\<close>

theorem seed_sequence_first_seen:
  "build_jira_queries la fs [] = seed_sequence la fs
   \<and> distinct (build_jira_queries la fs [])
   \<and> set (build_jira_queries la fs []) = {v. v \<noteq> [] \<and> (\<exists>f \<in> set fs. la f = Some v)}"
proof -
  have eq: "build_jira_queries la fs [] = seed_sequence la fs"
    by (simp add: build_jira_queries_acc seed_sequence_def)
  have "set (seed_sequence la fs) = {v. v \<noteq> [] \<and> (\<exists>f \<in> set fs. la f = Some v)}"
    by (auto simp: seed_sequence_def set_first_seen set_map_filter)
  with eq show ?thesis by (simp add: seed_sequence_def distinct_first_seen)
qed

theorem seed_sequence_first_seen_witness:
  "build_jira_queries [''uid'' \<mapsto> ''bob'', ''cn'' \<mapsto> ''Bob Smith'', ''alias'' \<mapsto> ''bob'', ''nick'' \<mapsto> []]
     [''uid'', ''phone'', ''cn'', ''alias'', ''nick''] [] = [''bob'', ''Bob Smith'']
   \<and> seed_sequence [''uid'' \<mapsto> ''bob'', ''cn'' \<mapsto> ''Bob Smith'', ''alias'' \<mapsto> ''bob'', ''nick'' \<mapsto> []]
     [''uid'', ''phone'', ''cn'', ''alias'', ''nick''] = [''bob'', ''Bob Smith'']"
  using seed_sequence_first_seen
    [of "[''uid'' \<mapsto> ''bob'', ''cn'' \<mapsto> ''Bob Smith'', ''alias'' \<mapsto> ''bob'', ''nick'' \<mapsto> []]"
        "[''uid'', ''phone'', ''cn'', ''alias'', ''nick'']"]
  by (simp add: seed_sequence_def List.map_filter_simps)

section \<open>Credentials at construction\<close>

text \<open>
  Claim C5, as amended. Construction succeeds exactly when user and password are both
  supplied (with or without a token), or neither of them is supplied and a token is; in
  every other case it raises \<open>ValueError\<close> and no instance exists: with all credentials
  absent, and with only one of user and password supplied, whether or not a token is
  supplied. A credential counts as supplied when it is neither \<open>None\<close> nor empty.
\<close>

theorem init_credentials:
  "((\<exists>self. init ju lu lb qf uf mf nf sf d mfile u p t = Inr self)
      \<longleftrightarrow> (truthy u \<and> truthy p) \<or> (\<not> truthy u \<and> \<not> truthy p \<and> truthy t))
   \<and> ((\<exists>msg. init ju lu lb qf uf mf nf sf d mfile u p t = Inl (ValueError msg))
      \<longleftrightarrow> (truthy u \<noteq> truthy p) \<or> (\<not> truthy u \<and> \<not> truthy p \<and> \<not> truthy t))"
  unfolding init_eq by (cases "truthy u"; cases "truthy p"; cases "truthy t"; simp)

theorem init_credentials_witness:
  "(\<exists>self. init ''https://issues.example.org'' ''ldap://ldaphost'' ''ou=users'' [''uid'']
             [''uid''] [''mail''] [''cn''] [''uid'', ''cn''] ''corp.com'' None
             None None (Some ''secret'') = Inr self)
   \<and> (\<exists>msg. init ''https://issues.example.org'' ''ldap://ldaphost'' ''ou=users'' [''uid'']
             [''uid''] [''mail''] [''cn''] [''uid'', ''cn''] ''corp.com'' None
             (Some ''admin'') None None = Inl (ValueError msg))"
  using init_credentials [of "''https://issues.example.org''" "''ldap://ldaphost''" "''ou=users''"
          "[''uid'']" "[''uid'']" "[''mail'']" "[''cn'']" "[''uid'', ''cn'']" "''corp.com''" None
          None None "Some ''secret''"]
        init_credentials [of "''https://issues.example.org''" "''ldap://ldaphost''" "''ou=users''"
          "[''uid'']" "[''uid'']" "[''mail'']" "[''cn'']" "[''uid'', ''cn'']" "''corp.com''" None
          "Some ''admin''" None None]
  by simp

text \<open>
  The claim as stated fails twice. A complete basic-auth pair together with a token is
  accepted, so not exactly one of the two is required; and a token together with a user
  name alone is rejected, so construction with a token does not always pass the check.
\<close>

theorem init_pair_and_token_counterexample:
  "init ''https://issues.example.org'' ''ldap://ldaphost'' ''ou=users'' [''uid'']
        [''uid''] [''mail''] [''cn''] [''uid'', ''cn''] ''corp.com'' None
        (Some ''admin'') (Some ''pw'') (Some ''secret'')
     = Inr \<lparr> jira_url = ''https://issues.example.org'', jira_user = Some ''admin'',
             jira_password = Some ''pw'', jira_auth_token = Some ''secret'',
             ldap_url = ''ldap://ldaphost'', ldap_base = ''ou=users'',
             ldap_query_fields_username = [''uid''], ldap_fields_username = [''uid''],
             ldap_fields_mail = [''mail''], ldap_fields_name = [''cn''],
             ldap_fields_jira_search = [''uid'', ''cn''], email_domain = ''corp.com'',
             map_file = None, map_attr = Map.empty \<rparr>
   \<and> init ''https://issues.example.org'' ''ldap://ldaphost'' ''ou=users'' [''uid'']
        [''uid''] [''mail''] [''cn''] [''uid'', ''cn''] ''corp.com'' None
        (Some ''admin'') None (Some ''secret'')
     = Inl (ValueError ''JIRA user and password required for basic auth.'')"
  by (simp add: init_def lstrip_at_def)

section \<open>The domain gate of the scorer\<close>

text \<open>
  Claim C6. A candidate whose email does not end with \<open>@\<close> followed by the instance's email
  domain scores \<open>NO_MATCH\<close>, whatever its name and display name are; a candidate that lacks
  one of the attributes \<open>name\<close>, \<open>emailAddress\<close>, \<open>displayName\<close> scores \<open>NO_MATCH\<close> too.
\<close>

theorem domain_gate:
  assumes "name acc = None \<or> emailAddress acc = None \<or> displayName acc = None
           \<or> (\<exists>e. emailAddress acc = Some e \<and> \<not> (\<exists>p. e = p @ CHR ''@'' # email_domain self))"
  shows "ldap_jira_match self la acc = NO_MATCH"
  using assms by (auto simp: ldap_jira_match_def endswith_iff split: option.splits)

text \<open>The account has the record's user name and display name, and a foreign email domain.\<close>

theorem domain_gate_witness:
  "emailAddress acc_outsider = Some ''bob@other.org''
   \<and> \<not> (\<exists>p. ''bob@other.org'' = p @ CHR ''@'' # email_domain ex_self)
   \<and> ex_ldap_bob ''uid'' = name acc_outsider
   \<and> ex_ldap_bob ''cn'' = displayName acc_outsider
   \<and> ldap_jira_match ex_self ex_ldap_bob acc_outsider = NO_MATCH"
proof -
  have gate: "\<not> (\<exists>p. ''bob@other.org'' = p @ CHR ''@'' # email_domain ex_self)"
    unfolding endswith_iff [symmetric] by (simp add: endswith_def ex_self_def)
  have mail: "emailAddress acc_outsider = Some ''bob@other.org''"
    by (simp add: acc_outsider_def)
  from mail gate have "ldap_jira_match ex_self ex_ldap_bob acc_outsider = NO_MATCH"
    by (intro domain_gate) blast
  with gate mail show ?thesis by (simp add: acc_outsider_def ex_ldap_bob_def)
qed

text \<open>
  Claim C10. Construction strips all leading \<open>@\<close> characters from the email domain, and the
  scorer's gate tests against \<open>@\<close> plus the stripped domain: two instances built from the
  same arguments, one with any number of \<open>@\<close> characters in front of the domain, are
  equal, and their scorers agree on every record and candidate.
\<close>

theorem email_domain_normalized:
  assumes "init ju lu lb qf uf mf nf sf d mfile u p t = Inr s1"
    and "init ju lu lb qf uf mf nf sf (replicate n (CHR ''@'') @ d) mfile u p t = Inr s2"
  shows "email_domain s1 = lstrip_at d \<and> email_domain s2 = lstrip_at d
         \<and> (lstrip_at d = [] \<or> hd (lstrip_at d) \<noteq> CHR ''@'')
         \<and> ldap_jira_match s1 la acc = ldap_jira_match s2 la acc"
proof -
  from assms have "s2 = s1" by (simp add: init_replicate)
  moreover have "email_domain s1 = lstrip_at d" using assms(1) by (rule init_email_domain)
  ultimately show ?thesis using lstrip_at_no_leading [of d] by simp
qed

theorem email_domain_normalized_witness:
  "\<exists>s1 s2.
     init ''https://issues.example.org'' ''ldap://ldaphost'' ''ou=users'' [''uid'']
          [''uid''] [''mail''] [''cn''] [''uid'', ''cn''] ''corp.com'' None
          None None (Some ''secret'') = Inr s1
   \<and> init ''https://issues.example.org'' ''ldap://ldaphost'' ''ou=users'' [''uid'']
          [''uid''] [''mail''] [''cn''] [''uid'', ''cn''] ''@corp.com'' None
          None None (Some ''secret'') = Inr s2
   \<and> email_domain s1 = ''corp.com'' \<and> email_domain s2 = ''corp.com''
   \<and> ldap_jira_match s1 ex_ldap_bob acc_bob = ldap_jira_match s2 ex_ldap_bob acc_bob"
proof -
  obtain s1 where s1: "init ''https://issues.example.org'' ''ldap://ldaphost'' ''ou=users'' [''uid'']
          [''uid''] [''mail''] [''cn''] [''uid'', ''cn''] ''corp.com'' None
          None None (Some ''secret'') = Inr s1"
    by (simp add: init_eq)
  obtain s2 where s2: "init ''https://issues.example.org'' ''ldap://ldaphost'' ''ou=users'' [''uid'']
          [''uid''] [''mail''] [''cn''] [''uid'', ''cn''] (replicate 1 (CHR ''@'') @ ''corp.com'') None
          None None (Some ''secret'') = Inr s2"
    by (simp add: init_eq)
  have strip: "lstrip_at ''corp.com'' = ''corp.com''" by (simp add: lstrip_at_def)
  from email_domain_normalized [OF s1 s2, of ex_ldap_bob acc_bob] s1 s2 strip
  show ?thesis by simp
qed

section \<open>The paths of \<open>_process_username\<close> that end before the searches\<close>

lemma process_username_empty:
  "process_username self w [] = Inr (new_user_dict [], [])"
  by (simp add: process_username_def)

lemma process_username_mapped:
  assumes "uname \<noteq> []" and "map_attr self uname = Some mapped"
  shows "process_username self w uname =
           Inr (\<lparr> username_key = Some uname, status_key = Some ''found'',
                   jira_account_key = Some mapped, jira_results_key = None \<rparr>,
                [LogUpdateUser INFO ''found'' mapped (Text ''File Map'')])"
  using assms by (simp add: process_username_def new_user_dict_def update_user_def)

lemma process_username_not_in_ldap:
  assumes "uname \<noteq> []" and "map_attr self uname = None" and "ldap_query self w uname = []"
  shows "process_username self w uname =
           Inr (\<lparr> username_key = Some uname, status_key = Some ''not_in_ldap'',
                   jira_account_key = None, jira_results_key = None \<rparr>,
                [ldap_query_event self uname,
                 LogUpdateUser WARNING ''not_in_ldap'' uname (Text [])])"
  using assms by (simp add: process_username_def new_user_dict_def update_user_def)

lemma process_username_multiple:
  assumes "uname \<noteq> []" and "map_attr self uname = None"
    and "length (ldap_query self w uname) > 1"
  shows "process_username self w uname =
           Inr (\<lparr> username_key = Some uname, status_key = Some ''missing'',
                   jira_account_key = None, jira_results_key = None \<rparr>,
                [ldap_query_event self uname,
                 LogUpdateUser WARNING ''missing'' uname (Text []),
                 LogError ''Multiple LDAP records for uid %s'' [uname]])"
proof -
  from assms(3) have "ldap_query self w uname \<noteq> []" by auto
  with assms show ?thesis
    by (simp add: process_username_def new_user_dict_def update_user_def)
qed

lemma process_username_search:
  assumes "uname \<noteq> []" and "map_attr self uname = None" and "ldap_query self w uname = [la]"
  shows "process_username self w uname =
           (case queries_loop self w la
                   (build_jira_queries la (ldap_fields_jira_search self) [])
                   (initial_state (new_user_dict uname) [ldap_query_event self uname]) of
              Inl e \<Rightarrow> Inl e
            | Inr st \<Rightarrow> Inr (verdict uname st))"
  using assms by (simp add: process_username_def)

section \<open>The override map\<close>

text \<open>
  Claim C3, as amended. For every non-empty user name that is a key of the map, the
  result is \<open>found\<close> with the account id the map gives, and the trace is the one log
  record of that verdict: no directory query and no ticket search is made, whatever the
  services would answer.
\<close>

theorem override_found:
  assumes "uname \<noteq> []" and "map_attr self uname = Some mapped"
  shows "process_username self w uname =
           Inr (\<lparr> username_key = Some uname, status_key = Some ''found'',
                   jira_account_key = Some mapped, jira_results_key = None \<rparr>,
                [LogUpdateUser INFO ''found'' mapped (Text ''File Map'')])"
  using assms by (rule process_username_mapped)

theorem override_found_witness:
  "''alice'' \<noteq> [] \<and> map_attr ex_self ''alice'' = Some ''alice.j''
   \<and> process_username ex_self (ex_world [acc_bob] []) ''alice'' =
       Inr (\<lparr> username_key = Some ''alice'', status_key = Some ''found'',
               jira_account_key = Some ''alice.j'', jira_results_key = None \<rparr>,
            [LogUpdateUser INFO ''found'' ''alice.j'' (Text ''File Map'')])"
proof -
  have m: "map_attr ex_self ''alice'' = Some ''alice.j''" by (simp add: ex_self_def)
  have n: "''alice'' \<noteq> []" by simp
  from override_found [OF n m, of "ex_world [acc_bob] []"] m show ?thesis by simp
qed

text \<open>
  The claim as stated fails for the empty user name: line 269 returns before the map is
  looked at, so an entry whose key is the empty string gives a result without status.
\<close>

theorem override_empty_name_counterexample:
  "map_attr (ex_self\<lparr>map_attr := [[] \<mapsto> ''nobody'']\<rparr>) [] = Some ''nobody''
   \<and> process_username (ex_self\<lparr>map_attr := [[] \<mapsto> ''nobody'']\<rparr>) (ex_world [] []) [] =
       Inr (\<lparr> username_key = Some [], status_key = None,
               jira_account_key = None, jira_results_key = None \<rparr>, [])"
  by (simp add: process_username_empty new_user_dict_def)

section \<open>The directory query\<close>

text \<open>
  Claim C4, as amended. For every non-empty user name that is not in the map and for which
  the directory does not return exactly one record, the record count alone decides: with no
  record the status is \<open>not_in_ldap\<close>, with several it is \<open>missing\<close> and an error is logged.
  The result has neither account nor candidates, the trace holds the directory query and the
  log records only, so no ticket search is made, and the call returns normally: the batch
  stores the result and goes on with the remaining user names.
\<close>

theorem directory_count_decides:
  assumes "uname \<noteq> []" and "map_attr self uname = None"
    and "length (ldap_query self w uname) \<noteq> 1"
  shows "process_username self w uname =
           Inr (\<lparr> username_key = Some uname,
                   status_key = Some (if ldap_query self w uname = [] then ''not_in_ldap''
                                      else ''missing''),
                   jira_account_key = None, jira_results_key = None \<rparr>,
                ldap_query_event self uname #
                  (if ldap_query self w uname = []
                   then [LogUpdateUser WARNING ''not_in_ldap'' uname (Text [])]
                   else [LogUpdateUser WARNING ''missing'' uname (Text []),
                         LogError ''Multiple LDAP records for uid %s'' [uname]]))
         \<and> collect_users self w (uname # rest) users =
             collect_users self w rest
               (users(uname \<mapsto>
                  \<lparr> username_key = None,
                    status_key = Some (if ldap_query self w uname = [] then ''not_in_ldap''
                                       else ''missing''),
                    jira_account_key = None, jira_results_key = None \<rparr>))"
proof (cases "ldap_query self w uname = []")
  case True
  with assms show ?thesis by (simp add: process_username_not_in_ldap)
next
  case False
  with assms(3) have "length (ldap_query self w uname) > 1"
    by (cases "ldap_query self w uname") auto
  with assms False show ?thesis by (simp add: process_username_multiple)
qed

theorem directory_count_decides_witness:
  "process_username ex_self (ex_world [acc_bob] [acc_bob]) ''dup'' =
     Inr (\<lparr> username_key = Some ''dup'', status_key = Some ''missing'',
             jira_account_key = None, jira_results_key = None \<rparr>,
          [ldap_query_event ex_self ''dup'',
           LogUpdateUser WARNING ''missing'' ''dup'' (Text []),
           LogError ''Multiple LDAP records for uid %s'' [''dup'']])
   \<and> process_username ex_self (ex_world [acc_bob] [acc_bob]) ''ghost'' =
     Inr (\<lparr> username_key = Some ''ghost'', status_key = Some ''not_in_ldap'',
             jira_account_key = None, jira_results_key = None \<rparr>,
          [ldap_query_event ex_self ''ghost'',
           LogUpdateUser WARNING ''not_in_ldap'' ''ghost'' (Text [])])"
proof -
  have q1: "ldap_query ex_self (ex_world [acc_bob] [acc_bob]) ''dup'' = [ex_ldap_bob, ex_ldap_bob]"
    by (simp add: ldap_query_def ex_world_def)
  have q2: "ldap_query ex_self (ex_world [acc_bob] [acc_bob]) ''ghost'' = []"
    by (simp add: ldap_query_def ex_world_def)
  have m1: "map_attr ex_self ''dup'' = None" and m2: "map_attr ex_self ''ghost'' = None"
    by (simp_all add: ex_self_def)
  have n1: "''dup'' \<noteq> []" and n2: "''ghost'' \<noteq> []" by simp_all
  have l1: "length (ldap_query ex_self (ex_world [acc_bob] [acc_bob]) ''dup'') \<noteq> 1"
    by (simp add: q1)
  have l2: "length (ldap_query ex_self (ex_world [acc_bob] [acc_bob]) ''ghost'') \<noteq> 1"
    by (simp add: q2)
  from directory_count_decides [OF n1 m1 l1] directory_count_decides [OF n2 m2 l2]
  show ?thesis by (simp add: q1 q2)
qed

text \<open>
  The claim as stated fails for the empty user name: it is not in the map and the directory
  has no record for it, yet the result has no status, because line 269 returns before the
  directory is asked.
\<close>

theorem directory_empty_name_counterexample:
  "map_attr ex_self [] = None
   \<and> ldap_query ex_self (ex_world [] []) [] = []
   \<and> process_username ex_self (ex_world [] []) [] =
       Inr (\<lparr> username_key = Some [], status_key = None,
               jira_account_key = None, jira_results_key = None \<rparr>, [])"
  by (simp add: process_username_empty new_user_dict_def ex_self_def ldap_query_def ex_world_def)

section \<open>The map across batch calls\<close>

lemma find_jira_accounts_map_file:
  "map_file (fst (find_jira_accounts self os w usernames)) = map_file self"
  by (simp add: find_jira_accounts_def Let_def split: sum.splits)


lemma find_jira_accounts_calls_map_file:
  "map_file (find_jira_accounts_calls self calls) = map_file self"
  by (induction self calls rule: find_jira_accounts_calls.induct)
     (simp_all add: find_jira_accounts_map_file)




section \<open>The search loops\<close>

lemma account_names_Cons:
  "account_names (a # accs) =
     (case name a of None \<Rightarrow> account_names accs | Some n \<Rightarrow> insert n (account_names accs))"
  by (simp add: account_names_def List.map_filter_simps split: option.splits)

lemma account_names_Nil: "account_names [] = {}"
  by (simp add: account_names_def List.map_filter_simps)

text \<open>Without a \<open>MATCH\<close> the inner loop sees every account and leaves dict and trace alone.\<close>

lemma accounts_loop_no_match:
  assumes "accounts_loop self la single accs st = Inr st'"
    and "jira_account_key (user_dict_var st') = None"
  shows "jira_account_usernames st' = jira_account_usernames st \<union> account_names accs
         \<and> user_dict_var st' = user_dict_var st \<and> trace st' = trace st"
  using assms
proof (induction accs arbitrary: st)
  case Nil
  then show ?case by (simp add: account_names_Nil)
next
  case (Cons a accs)
  show ?case
  proof (cases "name a")
    case None
    with Cons.prems show ?thesis by simp
  next
    case (Some n)
    let ?st1 = "st\<lparr>jira_account_usernames := insert n (jira_account_usernames st)\<rparr>"
    show ?thesis
    proof (cases "n \<in> jira_account_usernames st \<and> \<not> single")
      case True
      with Cons.prems Some have "accounts_loop self la single accs st = Inr st'" by simp
      from Cons.IH [OF this Cons.prems(2)] True Some show ?thesis
        by (auto simp: account_names_Cons)
    next
      case False
      note skip = this
      show ?thesis
      proof (cases "ldap_jira_match self la a = MATCH")
        case True
        with Cons.prems Some skip show ?thesis
          by (auto simp: Let_def update_user_def split: if_splits)
      next
        case False
        show ?thesis
        proof (cases "ldap_jira_match self la a = PARTIAL_MATCH \<and> single
                      \<and> n \<notin> set (partial_single_matches st)")
          case True
          with Cons.prems Some skip False
          have "accounts_loop self la single accs
                  (?st1\<lparr>partial_single_matches := partial_single_matches ?st1 @ [n]\<rparr>) = Inr st'"
            by (simp add: Let_def split: if_splits)
          from Cons.IH [OF this Cons.prems(2)] Some show ?thesis
            by (auto simp: account_names_Cons)
        next
          case no_append: False
          with Cons.prems Some skip False
          have "accounts_loop self la single accs ?st1 = Inr st'"
            by (auto simp: Let_def split: if_splits)
          from Cons.IH [OF this Cons.prems(2)] Some show ?thesis
            by (auto simp: account_names_Cons)
        qed
      qed
    qed
  qed
qed

text \<open>The four ways one account is handled when the inner loop returns normally.\<close>

lemma accounts_loop_Cons_cases:
  assumes "accounts_loop self la single (a # accs) st = Inr st'"
  obtains
    (skip) n where "name a = Some n" "n \<in> jira_account_usernames st" "\<not> single"
      "accounts_loop self la single accs st = Inr st'"
  | (match) n where "name a = Some n" "ldap_jira_match self la a = MATCH"
      "st' = st\<lparr>jira_account_usernames := insert n (jira_account_usernames st),
                 user_dict_var := (user_dict_var st)\<lparr>status_key := Some ''found'',
                                                     jira_account_key := Some n\<rparr>,
                 trace := trace st @ [LogUpdateUser INFO ''found'' n (Text [])]\<rparr>"
  | (partial) n where "name a = Some n" "ldap_jira_match self la a = PARTIAL_MATCH" "single"
      "n \<notin> set (partial_single_matches st)"
      "accounts_loop self la single accs
         (st\<lparr>jira_account_usernames := insert n (jira_account_usernames st),
             partial_single_matches := partial_single_matches st @ [n]\<rparr>) = Inr st'"
  | (other) n where "name a = Some n"
      "\<not> (ldap_jira_match self la a = PARTIAL_MATCH \<and> single
          \<and> n \<notin> set (partial_single_matches st))"
      "accounts_loop self la single accs
         (st\<lparr>jira_account_usernames := insert n (jira_account_usernames st)\<rparr>) = Inr st'"
proof (cases "name a")
  case None
  with assms show ?thesis by simp
next
  case (Some n)
  show ?thesis
  proof (cases "n \<in> jira_account_usernames st \<and> \<not> single")
    case True
    with assms Some show ?thesis by (intro skip [of n]) simp_all
  next
    case False
    note no_skip = this
    show ?thesis
    proof (cases "ldap_jira_match self la a = MATCH")
      case True
      with assms Some no_skip show ?thesis
        by (intro match [of n]) (auto simp: Let_def update_user_def)
    next
      case False
      note no_match = this
      show ?thesis
      proof (cases "ldap_jira_match self la a = PARTIAL_MATCH \<and> single
                    \<and> n \<notin> set (partial_single_matches st)")
        case True
        with assms Some no_skip no_match show ?thesis
          by (intro partial [of n]) (auto simp: Let_def)
      next
        case False
        with assms Some no_skip no_match show ?thesis
          by (intro other [of n]) (auto simp: Let_def split: if_splits)
      qed
    qed
  qed
qed

text \<open>
  Every entry of \<open>partial_single_matches\<close> was appended for an account of a single-result
  search that scored \<open>PARTIAL_MATCH\<close>, and no entry is appended twice.
\<close>

lemma accounts_loop_partial:
  assumes "accounts_loop self la single accs st = Inr st'"
    and "distinct (partial_single_matches st)"
    and "\<forall>n \<in> set (partial_single_matches st). Q n"
    and "single \<Longrightarrow> \<forall>a \<in> set accs. \<forall>n. name a = Some n
                        \<longrightarrow> ldap_jira_match self la a = PARTIAL_MATCH \<longrightarrow> Q n"
  shows "distinct (partial_single_matches st') \<and> (\<forall>n \<in> set (partial_single_matches st'). Q n)"
  using assms
proof (induction accs arbitrary: st)
  case Nil
  then show ?case by simp
next
  case (Cons a accs)
  have rest: "single \<Longrightarrow> \<forall>a \<in> set accs. \<forall>n. name a = Some n
                        \<longrightarrow> ldap_jira_match self la a = PARTIAL_MATCH \<longrightarrow> Q n"
    using Cons.prems(4) by simp
  from Cons.prems(1) show ?case
  proof (cases rule: accounts_loop_Cons_cases)
    case (skip n)
    from Cons.IH [OF skip(4) Cons.prems(2,3) rest] show ?thesis .
  next
    case (match n)
    with Cons.prems(2,3) show ?thesis by simp
  next
    case (partial n)
    have "Q n" using Cons.prems(4) partial(1,2,3) by simp
    with Cons.IH [OF partial(5) _ _ rest] Cons.prems(2,3) partial(4) show ?thesis by simp
  next
    case (other n)
    from Cons.IH [OF other(3) _ _ rest] Cons.prems(2,3) show ?thesis by simp
  qed
qed

text \<open>A \<open>MATCH\<close> recorded by the inner loop is the name of one of its accounts.\<close>

lemma accounts_loop_match:
  assumes "accounts_loop self la single accs st = Inr st'"
    and "jira_account_key (user_dict_var st) = None"
    and "jira_account_key (user_dict_var st') = Some m"
  shows "m \<in> jira_account_usernames st'
         \<and> status_key (user_dict_var st') = Some ''found''
         \<and> (\<exists>a \<in> set accs. name a = Some m \<and> ldap_jira_match self la a = MATCH)"
  using assms
proof (induction accs arbitrary: st)
  case Nil
  then show ?case by simp
next
  case (Cons a accs)
  from Cons.prems(1) show ?case
  proof (cases rule: accounts_loop_Cons_cases)
    case (skip n)
    from Cons.IH [OF skip(4) Cons.prems(2,3)] show ?thesis by auto
  next
    case (match n)
    with Cons.prems(3) show ?thesis by auto
  next
    case (partial n)
    from Cons.IH [OF partial(5) _ Cons.prems(3)] Cons.prems(2) show ?thesis by auto
  next
    case (other n)
    from Cons.IH [OF other(3) _ Cons.prems(3)] Cons.prems(2) show ?thesis by auto
  qed
qed

lemma observed_names_Nil: "observed_names self w [] = {}"
  by (simp add: observed_names_def)

lemma observed_names_Cons:
  "observed_names self w (q # qs) =
     account_names (jira_search_user self w q) \<union> observed_names self w qs"
  by (simp add: observed_names_def)

lemma single_partialI:
  assumes "q \<in> set queries" and "jira_search_user self w q = [acc]"
    and "name acc = Some n" and "ldap_jira_match self la acc = PARTIAL_MATCH"
  shows "single_partial self w la queries n"
  unfolding single_partial_def list_ex_iff using assms by (intro bexI [of _ q]) simp_all

text \<open>One round of the outer loop, when it returns normally.\<close>

lemma queries_loop_Cons_cases:
  assumes "queries_loop self w la (q # qs) st = Inr st'"
  obtains
    (found) "accounts_loop self la (length (jira_search_user self w q) = 1)
               (jira_search_user self w q) (st\<lparr>trace := trace st @ [JiraSearch q 10]\<rparr>) = Inr st'"
      "jira_account_key (user_dict_var st') \<noteq> None"
  | (continue) st1 where
      "accounts_loop self la (length (jira_search_user self w q) = 1)
               (jira_search_user self w q) (st\<lparr>trace := trace st @ [JiraSearch q 10]\<rparr>) = Inr st1"
      "jira_account_key (user_dict_var st1) = None"
      "queries_loop self w la qs st1 = Inr st'"
proof (cases "accounts_loop self la (length (jira_search_user self w q) = 1)
               (jira_search_user self w q) (st\<lparr>trace := trace st @ [JiraSearch q 10]\<rparr>)")
  case (Inl e)
  with assms show ?thesis by (simp add: Let_def)
next
  case (Inr st1)
  show ?thesis
  proof (cases "jira_account_key (user_dict_var st1)")
    case None
    with assms Inr show ?thesis by (intro continue [of st1]) (simp_all add: Let_def)
  next
    case (Some m)
    with assms Inr have "st1 = st'" by (simp add: Let_def)
    with Inr Some show ?thesis by (intro found) simp_all
  qed
qed

text \<open>
  Without a \<open>MATCH\<close> the outer loop searches every value and sees every account of every
  search.
\<close>

lemma queries_loop_no_match:
  assumes "queries_loop self w la qs st = Inr st'"
    and "jira_account_key (user_dict_var st') = None"
  shows "jira_account_usernames st' = jira_account_usernames st \<union> observed_names self w qs
         \<and> user_dict_var st' = user_dict_var st
         \<and> trace st' = trace st @ map (\<lambda>q. JiraSearch q 10) qs"
  using assms
proof (induction qs arbitrary: st)
  case Nil
  then show ?case by (simp add: observed_names_Nil)
next
  case (Cons q qs)
  from Cons.prems(1) show ?case
  proof (cases rule: queries_loop_Cons_cases)
    case found
    with Cons.prems(2) show ?thesis by simp
  next
    case (continue st1)
    from accounts_loop_no_match [OF continue(1,2)] Cons.IH [OF continue(3) Cons.prems(2)]
    show ?thesis by (auto simp: observed_names_Cons)
  qed
qed

lemma queries_loop_partial:
  assumes "queries_loop self w la qs st = Inr st'"
    and "set qs \<subseteq> set queries"
    and "distinct (partial_single_matches st)"
    and "\<forall>n \<in> set (partial_single_matches st). single_partial self w la queries n"
  shows "distinct (partial_single_matches st')
         \<and> (\<forall>n \<in> set (partial_single_matches st'). single_partial self w la queries n)"
  using assms
proof (induction qs arbitrary: st)
  case Nil
  then show ?case by simp
next
  case (Cons q qs)
  let ?st0 = "st\<lparr>trace := trace st @ [JiraSearch q 10]\<rparr>"
  have q: "q \<in> set queries" and qs: "set qs \<subseteq> set queries" using Cons.prems(2) by simp_all
  have single: "length (jira_search_user self w q) = 1 \<Longrightarrow>
      \<forall>a \<in> set (jira_search_user self w q). \<forall>n. name a = Some n
        \<longrightarrow> ldap_jira_match self la a = PARTIAL_MATCH \<longrightarrow> single_partial self w la queries n"
  proof -
    assume "length (jira_search_user self w q) = 1"
    then obtain acc where acc: "jira_search_user self w q = [acc]"
      by (cases "jira_search_user self w q") auto
    show ?thesis using single_partialI [OF q acc] by (simp add: acc)
  qed
  have inv0: "distinct (partial_single_matches ?st0)"
    "\<forall>n \<in> set (partial_single_matches ?st0). single_partial self w la queries n"
    using Cons.prems(3,4) by simp_all
  from Cons.prems(1) show ?case
  proof (cases rule: queries_loop_Cons_cases)
    case found
    from accounts_loop_partial [OF found(1) inv0 single] show ?thesis by simp
  next
    case (continue st1)
    from accounts_loop_partial [OF continue(1) inv0 single]
    have "distinct (partial_single_matches st1)"
      and "\<forall>n \<in> set (partial_single_matches st1). single_partial self w la queries n"
      by simp_all
    from Cons.IH [OF continue(3) qs this] show ?thesis .
  qed
qed

lemma queries_loop_match:
  assumes "queries_loop self w la qs st = Inr st'"
    and "jira_account_key (user_dict_var st) = None"
    and "jira_account_key (user_dict_var st') = Some m"
  shows "m \<in> jira_account_usernames st'
         \<and> status_key (user_dict_var st') = Some ''found''
         \<and> (\<exists>q \<in> set qs. \<exists>a \<in> set (jira_search_user self w q).
               name a = Some m \<and> ldap_jira_match self la a = MATCH)"
  using assms
proof (induction qs arbitrary: st)
  case Nil
  then show ?case by simp
next
  case (Cons q qs)
  from Cons.prems(1) show ?case
  proof (cases rule: queries_loop_Cons_cases)
    case found
    from accounts_loop_match [OF found(1) _ Cons.prems(3)] Cons.prems(2)
    show ?thesis by auto
  next
    case (continue st1)
    from Cons.IH [OF continue(3,2) Cons.prems(3)] show ?thesis by auto
  qed
qed

section \<open>The verdict\<close>

lemma verdict_missing:
  assumes "jira_account_usernames st = {}"
  shows "verdict uname st =
           ((user_dict_var st)\<lparr>status_key := Some ''missing''\<rparr>,
            trace st @ [LogUpdateUser WARNING ''missing'' uname (Text [])])"
  using assms by (simp add: verdict_def update_user_def)

lemma verdict_single_partial:
  assumes "jira_account_usernames st \<noteq> {}" and "partial_single_matches st = [a]"
  shows "verdict uname st =
           ((user_dict_var st)\<lparr>status_key := Some ''found'', jira_account_key := Some a\<rparr>,
            trace st @ [LogUpdateUser INFO ''found'' a (Text ''Single Partial'')])"
  using assms by (simp add: verdict_def update_user_def)

lemma verdict_match:
  assumes "jira_account_usernames st \<noteq> {}" and "length (partial_single_matches st) \<noteq> 1"
    and "jira_account_key (user_dict_var st) = Some m"
  shows "verdict uname st = (user_dict_var st, trace st)"
  using assms by (simp add: verdict_def update_user_def)

lemma verdict_ambiguous:
  assumes "jira_account_usernames st \<noteq> {}" and "length (partial_single_matches st) \<noteq> 1"
    and "jira_account_key (user_dict_var st) = None"
  shows "verdict uname st =
           ((user_dict_var st)\<lparr>jira_results_key := Some (jira_account_usernames st),
                                status_key := Some ''ambiguous''\<rparr>,
            trace st @ [LogUpdateUser WARNING ''ambiguous'' uname
                          (Possible_matches (jira_account_usernames st))])"
  using assms by (simp add: verdict_def update_user_def)

lemma distinct_singleton:
  assumes "distinct xs" and "set xs = {a}"
  shows "xs = [a]"
proof (cases xs)
  case Nil
  with assms show ?thesis by simp
next
  case (Cons x ys)
  with assms have "x = a" by auto
  moreover have "ys = []"
  proof (cases ys)
    case Nil
    then show ?thesis .
  next
    case (Cons y zs)
    with assms \<open>xs = x # ys\<close> \<open>x = a\<close> have "y = a" "y \<noteq> a" by auto
    then show ?thesis by simp
  qed
  ultimately show ?thesis using Cons by simp
qed

section \<open>The verdicts after the searches\<close>

lemma initial_state_simps:
  "jira_account_usernames (initial_state ud tr) = {}"
  "partial_single_matches (initial_state ud tr) = []"
  "user_dict_var (initial_state ud tr) = ud"
  "trace (initial_state ud tr) = tr"
  by (simp_all add: initial_state_def)

text \<open>What a result with status \<open>ambiguous\<close> tells about the run.\<close>

lemma process_username_ambiguous_path:
  assumes "process_username self w uname = Inr (ud, tr)"
    and "status_key ud = Some ''ambiguous''"
  shows "\<exists>la st. ldap_query self w uname = [la]
           \<and> queries_loop self w la
                 (build_jira_queries la (ldap_fields_jira_search self) [])
                 (initial_state (new_user_dict uname) [ldap_query_event self uname]) = Inr st
           \<and> verdict uname st = (ud, tr)"
proof -
  have nonempty: "uname \<noteq> []"
    using assms by (cases "uname = []") (auto simp: process_username_empty new_user_dict_def)
  have unmapped: "map_attr self uname = None"
  proof (cases "map_attr self uname")
    case None
    then show ?thesis .
  next
    case (Some mapped)
    from assms process_username_mapped [OF nonempty Some, of w] show ?thesis by auto
  qed
  have "\<exists>la. ldap_query self w uname = [la]"
  proof (cases "ldap_query self w uname")
    case Nil
    from assms process_username_not_in_ldap [OF nonempty unmapped Nil] show ?thesis by auto
  next
    case (Cons la more)
    show ?thesis
    proof (cases more)
      case Nil
      with Cons show ?thesis by simp
    next
      case (Cons la2 more2)
      with \<open>ldap_query self w uname = la # more\<close>
      have "length (ldap_query self w uname) > 1" by simp
      from assms process_username_multiple [OF nonempty unmapped this] show ?thesis by auto
    qed
  qed
  then obtain la where la: "ldap_query self w uname = [la]" ..
  from assms(1) process_username_search [OF nonempty unmapped la]
  have "\<exists>st. queries_loop self w la
                 (build_jira_queries la (ldap_fields_jira_search self) [])
                 (initial_state (new_user_dict uname) [ldap_query_event self uname]) = Inr st
             \<and> verdict uname st = (ud, tr)"
    by (auto split: sum.splits)
  with la show ?thesis by blast
qed

lemma length_one_eq: "length xs = 1 \<Longrightarrow> \<exists>a. xs = [a]"
  by (cases xs) auto

section \<open>The example runs\<close>

lemma ex_scores:
  "ldap_jira_match ex_self ex_ldap_bob acc_bob = MATCH"
  "ldap_jira_match ex_self ex_ldap_bob acc_robert = PARTIAL_MATCH"
  "ldap_jira_match ex_self ex_ldap_bob acc_bsmith = PARTIAL_MATCH"
  by (simp_all add: ldap_jira_match_def ex_self_def ex_ldap_bob_def acc_bob_def acc_robert_def
        acc_bsmith_def endswith_def ldap_values_def List.map_filter_simps)

lemma ex_names:
  "name acc_bob = Some ''bob''" "name acc_robert = Some ''robert''"
  "name acc_bsmith = Some ''bsmith''"
  by (simp_all add: acc_bob_def acc_robert_def acc_bsmith_def)

lemma ex_queries:
  "build_jira_queries ex_ldap_bob (ldap_fields_jira_search ex_self) [] = [''bob'', ''Bob Smith'']"
  by (simp add: ex_self_def ex_ldap_bob_def)

lemma ex_directory:
  "ldap_query ex_self (ex_world by_uid by_cn) ''bob'' = [ex_ldap_bob]"
  "map_attr ex_self ''bob'' = None"
  by (simp_all add: ldap_query_def ex_world_def ex_self_def)

lemma ex_searches:
  "jira_search_user ex_self (ex_world by_uid by_cn) ''bob'' = by_uid"
  "jira_search_user ex_self (ex_world by_uid by_cn) ''Bob Smith'' = by_cn"
  by (simp_all add: jira_search_user_def ex_world_def)

lemma ex_run:
  "process_username ex_self (ex_world by_uid by_cn) ''bob'' =
     (case queries_loop ex_self (ex_world by_uid by_cn) ex_ldap_bob [''bob'', ''Bob Smith'']
             (initial_state (new_user_dict ''bob'') [ldap_query_event ex_self ''bob'']) of
        Inl e \<Rightarrow> Inl e
      | Inr st \<Rightarrow> Inr (verdict ''bob'' st))"
proof -
  have n: "''bob'' \<noteq> []" by simp
  from process_username_search [OF n ex_directory(2) ex_directory(1), of by_uid by_cn]
  show ?thesis by (simp only: ex_queries)
qed

lemma ex_run_bug:
  "process_username ex_self (ex_world [acc_robert] [acc_bob]) ''bob'' =
     Inr (\<lparr> username_key = Some ''bob'', status_key = Some ''found'',
             jira_account_key = Some ''robert'', jira_results_key = None \<rparr>,
          [ldap_query_event ex_self ''bob'', JiraSearch ''bob'' 10, JiraSearch ''Bob Smith'' 10,
           LogUpdateUser INFO ''found'' ''bob'' (Text []),
           LogUpdateUser INFO ''found'' ''robert'' (Text ''Single Partial'')])"
  by (simp add: ex_run ex_searches ex_scores ex_names score_defs initial_state_def
        new_user_dict_def update_user_def verdict_def)

section \<open>The ambiguous verdict\<close>

text \<open>
  The content of an ambiguous result. When resolution ends with the verdict \<open>ambiguous\<close>,
  the searches recorded no \<open>MATCH\<close>, \<open>partial_single_matches\<close> does not have exactly one
  entry and at least one account was seen; the result holds the seen account ids, which
  are the ids of all accounts that the searches for all seeds returned.
\<close>

theorem ambiguous_carries_seen_set:
  assumes "process_username self w uname = Inr (ud, tr)"
    and "status_key ud = Some ''ambiguous''"
  shows "\<exists>la st. ldap_query self w uname = [la]
           \<and> queries_loop self w la
                 (build_jira_queries la (ldap_fields_jira_search self) [])
                 (initial_state (new_user_dict uname) [ldap_query_event self uname]) = Inr st
           \<and> jira_account_key (user_dict_var st) = None
           \<and> length (partial_single_matches st) \<noteq> 1
           \<and> jira_account_usernames st \<noteq> {}
           \<and> jira_results_key ud = Some (jira_account_usernames st)
           \<and> jira_account_usernames st =
               observed_names self w (build_jira_queries la (ldap_fields_jira_search self) [])
           \<and> jira_account_key ud = None"
proof -
  from process_username_ambiguous_path [OF assms] obtain la st where
      la: "ldap_query self w uname = [la]"
    and loop: "queries_loop self w la
                 (build_jira_queries la (ldap_fields_jira_search self) [])
                 (initial_state (new_user_dict uname) [ldap_query_event self uname]) = Inr st"
    and v: "verdict uname st = (ud, tr)"
    by blast
  have seen: "jira_account_usernames st \<noteq> {}"
  proof
    assume "jira_account_usernames st = {}"
    from verdict_missing [OF this, of uname] v assms(2) show False by auto
  qed
  have len: "length (partial_single_matches st) \<noteq> 1"
  proof
    assume "length (partial_single_matches st) = 1"
    then obtain a where "partial_single_matches st = [a]" using length_one_eq by blast
    from verdict_single_partial [OF seen this, of uname] v assms(2) show False by auto
  qed
  have init_key: "jira_account_key (user_dict_var
      (initial_state (new_user_dict uname) [ldap_query_event self uname])) = None"
    by (simp add: initial_state_simps new_user_dict_def)
  have key: "jira_account_key (user_dict_var st) = None"
  proof (cases "jira_account_key (user_dict_var st)")
    case None
    then show ?thesis .
  next
    case (Some m)
    from queries_loop_match [OF loop init_key Some]
    have "status_key (user_dict_var st) = Some ''found''" by simp
    with verdict_match [OF seen len Some, of uname] v assms(2) show ?thesis by auto
  qed
  from queries_loop_no_match [OF loop key]
  have all: "jira_account_usernames st =
      observed_names self w (build_jira_queries la (ldap_fields_jira_search self) [])"
    by (simp add: initial_state_simps)
  from verdict_ambiguous [OF seen len key, of uname] v
  have "jira_results_key ud = Some (jira_account_usernames st)" "jira_account_key ud = None"
    using key by auto
  with la loop key len seen all show ?thesis by blast
qed


lemma ex_run_robert_bsmith:
  "process_username ex_self (ex_world [acc_robert, acc_bsmith] []) ''bob'' =
     Inr (\<lparr> username_key = Some ''bob'', status_key = Some ''ambiguous'',
             jira_account_key = None, jira_results_key = Some {''bsmith'', ''robert''} \<rparr>,
          [ldap_query_event ex_self ''bob'', JiraSearch ''bob'' 10, JiraSearch ''Bob Smith'' 10,
           LogUpdateUser WARNING ''ambiguous'' ''bob''
             (Possible_matches {''bsmith'', ''robert''})])"
  by (simp add: ex_run ex_searches ex_scores ex_names score_defs initial_state_def
        new_user_dict_def update_user_def verdict_def)

lemma ex_run_bsmith_robert:
  "process_username ex_self (ex_world [acc_bsmith, acc_robert] []) ''bob'' =
     Inr (\<lparr> username_key = Some ''bob'', status_key = Some ''ambiguous'',
             jira_account_key = None, jira_results_key = Some {''robert'', ''bsmith''} \<rparr>,
          [ldap_query_event ex_self ''bob'', JiraSearch ''bob'' 10, JiraSearch ''Bob Smith'' 10,
           LogUpdateUser WARNING ''ambiguous'' ''bob''
             (Possible_matches {''robert'', ''bsmith''})])"
  by (simp add: ex_run ex_searches ex_scores ex_names score_defs initial_state_def
        new_user_dict_def update_user_def verdict_def)

lemma ex_same_set: "{''bsmith'', ''robert''} = {''robert'', ''bsmith''}"
  by (fact insert_commute)

text \<open>
  The search for \<open>bob\<close> returns two accounts that match by display name only; the search
  for \<open>Bob Smith\<close> returns nothing.
\<close>

theorem ambiguous_carries_seen_set_witness:
  "process_username ex_self (ex_world [acc_robert, acc_bsmith] []) ''bob'' =
     Inr (\<lparr> username_key = Some ''bob'', status_key = Some ''ambiguous'',
             jira_account_key = None, jira_results_key = Some {''bsmith'', ''robert''} \<rparr>,
          [ldap_query_event ex_self ''bob'', JiraSearch ''bob'' 10, JiraSearch ''Bob Smith'' 10,
           LogUpdateUser WARNING ''ambiguous'' ''bob''
             (Possible_matches {''bsmith'', ''robert''})])
   \<and> (\<exists>la st. ldap_query ex_self (ex_world [acc_robert, acc_bsmith] []) ''bob'' = [la]
           \<and> queries_loop ex_self (ex_world [acc_robert, acc_bsmith] []) la
                 (build_jira_queries la (ldap_fields_jira_search ex_self) [])
                 (initial_state (new_user_dict ''bob'') [ldap_query_event ex_self ''bob'']) = Inr st
           \<and> jira_account_key (user_dict_var st) = None
           \<and> length (partial_single_matches st) \<noteq> 1
           \<and> jira_account_usernames st \<noteq> {}
           \<and> jira_results_key
                \<lparr> username_key = Some ''bob'', status_key = Some ''ambiguous'',
                  jira_account_key = None, jira_results_key = Some {''bsmith'', ''robert''} \<rparr>
               = Some (jira_account_usernames st)
           \<and> jira_account_usernames st =
               observed_names ex_self (ex_world [acc_robert, acc_bsmith] [])
                 (build_jira_queries la (ldap_fields_jira_search ex_self) [])
           \<and> jira_account_key
                \<lparr> username_key = Some ''bob'', status_key = Some ''ambiguous'',
                  jira_account_key = None, jira_results_key = Some {''bsmith'', ''robert''} \<rparr>
               = None)"
proof (rule conjI)
  show "process_username ex_self (ex_world [acc_robert, acc_bsmith] []) ''bob'' =
     Inr (\<lparr> username_key = Some ''bob'', status_key = Some ''ambiguous'',
             jira_account_key = None, jira_results_key = Some {''bsmith'', ''robert''} \<rparr>,
          [ldap_query_event ex_self ''bob'', JiraSearch ''bob'' 10, JiraSearch ''Bob Smith'' 10,
           LogUpdateUser WARNING ''ambiguous'' ''bob''
             (Possible_matches {''bsmith'', ''robert''})])"
    by (rule ex_run_robert_bsmith)
next
  have st: "status_key \<lparr> username_key = Some ''bob'', status_key = Some ''ambiguous'',
             jira_account_key = None, jira_results_key = Some {''bsmith'', ''robert''} \<rparr>
            = Some ''ambiguous''"
    by simp
  show "\<exists>la st. ldap_query ex_self (ex_world [acc_robert, acc_bsmith] []) ''bob'' = [la]
           \<and> queries_loop ex_self (ex_world [acc_robert, acc_bsmith] []) la
                 (build_jira_queries la (ldap_fields_jira_search ex_self) [])
                 (initial_state (new_user_dict ''bob'') [ldap_query_event ex_self ''bob'']) = Inr st
           \<and> jira_account_key (user_dict_var st) = None
           \<and> length (partial_single_matches st) \<noteq> 1
           \<and> jira_account_usernames st \<noteq> {}
           \<and> jira_results_key
                \<lparr> username_key = Some ''bob'', status_key = Some ''ambiguous'',
                  jira_account_key = None, jira_results_key = Some {''bsmith'', ''robert''} \<rparr>
               = Some (jira_account_usernames st)
           \<and> jira_account_usernames st =
               observed_names ex_self (ex_world [acc_robert, acc_bsmith] [])
                 (build_jira_queries la (ldap_fields_jira_search ex_self) [])
           \<and> jira_account_key
                \<lparr> username_key = Some ''bob'', status_key = Some ''ambiguous'',
                  jira_account_key = None, jira_results_key = Some {''bsmith'', ''robert''} \<rparr>
               = None"
    by (rule ambiguous_carries_seen_set [OF ex_run_robert_bsmith st])
qed

text \<open>
  Claim C2 fails on the code. The claim wants the candidates of an ambiguous result as a
  list in the order of first observation, and the docstring of \<open>find_jira_accounts\<close>
  describes \<open>jira-results\<close> as a list of JIRA user names (lines 386, 391 and 397-398).
  Line 356 stores the Python \<open>set\<close> of line 313 itself, which keeps no order of
  observation: two ticket systems that answer the same search with the same two accounts
  in opposite orders give the same result.
\<close>

theorem ambiguous_candidates_unordered:
  "jira_search_user ex_self (ex_world [acc_robert, acc_bsmith] []) ''bob'' = [acc_robert, acc_bsmith]
   \<and> jira_search_user ex_self (ex_world [acc_bsmith, acc_robert] []) ''bob'' = [acc_bsmith, acc_robert]
   \<and> process_username ex_self (ex_world [acc_robert, acc_bsmith] []) ''bob''
       = process_username ex_self (ex_world [acc_bsmith, acc_robert] []) ''bob''
   \<and> process_username ex_self (ex_world [acc_bsmith, acc_robert] []) ''bob'' =
       Inr (\<lparr> username_key = Some ''bob'', status_key = Some ''ambiguous'',
               jira_account_key = None, jira_results_key = Some {''robert'', ''bsmith''} \<rparr>,
            [ldap_query_event ex_self ''bob'', JiraSearch ''bob'' 10, JiraSearch ''Bob Smith'' 10,
             LogUpdateUser WARNING ''ambiguous'' ''bob''
               (Possible_matches {''robert'', ''bsmith''})])"
proof -
  have "process_username ex_self (ex_world [acc_robert, acc_bsmith] []) ''bob''
       = process_username ex_self (ex_world [acc_bsmith, acc_robert] []) ''bob''"
    by (simp only: ex_run_robert_bsmith ex_run_bsmith_robert ex_same_set)
  with ex_run_bsmith_robert ex_searches(1) [of "[acc_robert, acc_bsmith]" "[]"]
    ex_searches(1) [of "[acc_bsmith, acc_robert]" "[]"]
  show ?thesis by (intro conjI)
qed

section \<open>The single partial match\<close>

text \<open>A search with several results leaves \<open>partial_single_matches\<close> as it is.\<close>

lemma accounts_loop_multi:
  assumes "accounts_loop self la False accs st = Inr st'"
  shows "partial_single_matches st' = partial_single_matches st"
  using assms
proof (induction accs arbitrary: st)
  case Nil
  then show ?case by simp
next
  case (Cons a accs)
  from Cons.prems show ?case
  proof (cases rule: accounts_loop_Cons_cases)
    case (skip n)
    from Cons.IH [OF skip(4)] show ?thesis .
  next
    case (match n)
    then show ?thesis by simp
  next
    case (partial n)
    then show ?thesis by simp
  next
    case (other n)
    from Cons.IH [OF other(3)] show ?thesis by simp
  qed
qed

text \<open>
  Claim C7. Let resolution reach the searches: the user name is not empty and not in the
  map, and the directory has one record for it. Every entry of \<open>partial_single_matches\<close>
  is the account of a single-result search that scored \<open>PARTIAL_MATCH\<close>, no entry occurs
  twice, and a search with several results never changes the list. If the searches record
  no \<open>MATCH\<close>, see at least one account and append exactly one account id, the verdict is
  \<open>found\<close> with that id.
\<close>

theorem single_partial_found:
  assumes "uname \<noteq> []" and "map_attr self uname = None"
    and "ldap_query self w uname = [la]"
    and "queries_loop self w la (build_jira_queries la (ldap_fields_jira_search self) [])
           (initial_state (new_user_dict uname) [ldap_query_event self uname]) = Inr st"
  shows "(\<forall>n \<in> set (partial_single_matches st).
            single_partial self w la (build_jira_queries la (ldap_fields_jira_search self) []) n)
       \<and> distinct (partial_single_matches st)
       \<and> (\<forall>accs st0 st1. accounts_loop self la False accs st0 = Inr st1
             \<longrightarrow> partial_single_matches st1 = partial_single_matches st0)
       \<and> (jira_account_key (user_dict_var st) = None \<and> jira_account_usernames st \<noteq> {}
            \<and> set (partial_single_matches st) = {a}
           \<longrightarrow> process_username self w uname =
                 Inr (\<lparr> username_key = Some uname, status_key = Some ''found'',
                         jira_account_key = Some a, jira_results_key = None \<rparr>,
                      ldap_query_event self uname
                        # map (\<lambda>q. JiraSearch q 10)
                            (build_jira_queries la (ldap_fields_jira_search self) [])
                        @ [LogUpdateUser INFO ''found'' a (Text ''Single Partial'')]))"
proof -
  let ?seeds = "build_jira_queries la (ldap_fields_jira_search self) []"
  let ?init = "initial_state (new_user_dict uname) [ldap_query_event self uname]"
  have inv: "distinct (partial_single_matches st)
             \<and> (\<forall>n \<in> set (partial_single_matches st). single_partial self w la ?seeds n)"
    by (rule queries_loop_partial [OF assms(4)]) (simp_all add: initial_state_simps)
  have multi: "\<forall>accs st0 st1. accounts_loop self la False accs st0 = Inr st1
             \<longrightarrow> partial_single_matches st1 = partial_single_matches st0"
    using accounts_loop_multi by blast
  have verdict: "process_username self w uname =
                 Inr (\<lparr> username_key = Some uname, status_key = Some ''found'',
                         jira_account_key = Some a, jira_results_key = None \<rparr>,
                      ldap_query_event self uname # map (\<lambda>q. JiraSearch q 10) ?seeds
                        @ [LogUpdateUser INFO ''found'' a (Text ''Single Partial'')])"
    if key: "jira_account_key (user_dict_var st) = None"
      and seen: "jira_account_usernames st \<noteq> {}"
      and one: "set (partial_single_matches st) = {a}"
  proof -
    from inv one have single: "partial_single_matches st = [a]"
      by (intro distinct_singleton) simp_all
    from queries_loop_no_match [OF assms(4) key]
    have ud: "user_dict_var st = new_user_dict uname"
      and tr: "trace st = ldap_query_event self uname # map (\<lambda>q. JiraSearch q 10) ?seeds"
      by (simp_all add: initial_state_simps)
    from process_username_search [OF assms(1,2,3)] assms(4)
    have "process_username self w uname = Inr (verdict uname st)" by simp
    also have "verdict uname st =
        ((user_dict_var st)\<lparr>status_key := Some ''found'', jira_account_key := Some a\<rparr>,
         trace st @ [LogUpdateUser INFO ''found'' a (Text ''Single Partial'')])"
      by (rule verdict_single_partial [OF seen single])
    finally show ?thesis by (simp add: ud tr new_user_dict_def)
  qed
  from inv multi verdict show ?thesis by blast
qed

text \<open>
  The search for \<open>bob\<close> returns the single account \<open>robert\<close>, which matches by display name
  only; the search for \<open>Bob Smith\<close> returns nothing.
\<close>

lemma ex_loop_robert:
  "queries_loop ex_self (ex_world [acc_robert] []) ex_ldap_bob
     (build_jira_queries ex_ldap_bob (ldap_fields_jira_search ex_self) [])
     (initial_state (new_user_dict ''bob'') [ldap_query_event ex_self ''bob'']) =
   Inr \<lparr> jira_account_usernames = {''robert''}, partial_single_matches = [''robert''],
         user_dict_var = new_user_dict ''bob'',
         trace = [ldap_query_event ex_self ''bob'', JiraSearch ''bob'' 10,
                  JiraSearch ''Bob Smith'' 10] \<rparr>"
  by (simp add: ex_queries ex_searches ex_scores ex_names score_defs initial_state_def
        new_user_dict_def)

theorem single_partial_found_witness:
  "ldap_query ex_self (ex_world [acc_robert] []) ''bob'' = [ex_ldap_bob]
   \<and> jira_search_user ex_self (ex_world [acc_robert] []) ''bob'' = [acc_robert]
   \<and> single_partial ex_self (ex_world [acc_robert] []) ex_ldap_bob [''bob'', ''Bob Smith''] ''robert''
   \<and> process_username ex_self (ex_world [acc_robert] []) ''bob'' =
       Inr (\<lparr> username_key = Some ''bob'', status_key = Some ''found'',
               jira_account_key = Some ''robert'', jira_results_key = None \<rparr>,
            [ldap_query_event ex_self ''bob'', JiraSearch ''bob'' 10, JiraSearch ''Bob Smith'' 10,
             LogUpdateUser INFO ''found'' ''robert'' (Text ''Single Partial'')])"
proof -
  have n: "''bob'' \<noteq> []" by simp
  note inst = single_partial_found [OF n ex_directory(2) ex_directory(1) ex_loop_robert,
                of "''robert''"]
  from inst have "single_partial ex_self (ex_world [acc_robert] []) ex_ldap_bob
                   [''bob'', ''Bob Smith''] ''robert''"
    by (simp add: ex_queries)
  moreover from inst have "process_username ex_self (ex_world [acc_robert] []) ''bob'' =
       Inr (\<lparr> username_key = Some ''bob'', status_key = Some ''found'',
               jira_account_key = Some ''robert'', jira_results_key = None \<rparr>,
            [ldap_query_event ex_self ''bob'', JiraSearch ''bob'' 10, JiraSearch ''Bob Smith'' 10,
             LogUpdateUser INFO ''found'' ''robert'' (Text ''Single Partial'')])"
    by (simp add: ex_queries new_user_dict_def)
  ultimately show ?thesis by (simp add: ex_directory ex_searches)
qed

section \<open>A match and an earlier single partial match\<close>

text \<open>
  When the searches record a \<open>MATCH\<close>, the result is \<open>found\<close>; the account is the matched
  one unless \<open>partial_single_matches\<close> has exactly one entry, which then replaces it.
\<close>

lemma match_then_verdict:
  assumes "uname \<noteq> []" and "map_attr self uname = None"
    and "ldap_query self w uname = [la]"
    and "queries_loop self w la (build_jira_queries la (ldap_fields_jira_search self) [])
           (initial_state (new_user_dict uname) [ldap_query_event self uname]) = Inr st"
    and "jira_account_key (user_dict_var st) = Some m"
  shows "\<exists>ud tr. process_username self w uname = Inr (ud, tr)
           \<and> status_key ud = Some ''found''
           \<and> jira_account_key ud =
               Some (if length (partial_single_matches st) = 1
                     then hd (partial_single_matches st) else m)"
proof -
  have init_key: "jira_account_key (user_dict_var
      (initial_state (new_user_dict uname) [ldap_query_event self uname])) = None"
    by (simp add: initial_state_simps new_user_dict_def)
  from queries_loop_match [OF assms(4) init_key assms(5)]
  have seen: "jira_account_usernames st \<noteq> {}"
    and status: "status_key (user_dict_var st) = Some ''found''"
    by auto
  from process_username_search [OF assms(1,2,3)] assms(4)
  have run: "process_username self w uname = Inr (verdict uname st)" by simp
  show ?thesis
  proof (cases "length (partial_single_matches st) = 1")
    case True
    then obtain a where a: "partial_single_matches st = [a]" using length_one_eq by blast
    from verdict_single_partial [OF seen a, of uname] run a show ?thesis by simp
  next
    case False
    from verdict_match [OF seen False assms(5), of uname] run status assms(5) False
    show ?thesis by simp
  qed
qed

text \<open>
  Claim C1 fails on the code. The directory record of \<open>bob\<close> gives the seeds \<open>bob\<close> and
  \<open>Bob Smith\<close>. The search for \<open>bob\<close> returns the single account \<open>robert\<close>, a partial match;
  the search for \<open>Bob Smith\<close> returns the account \<open>bob\<close>, which scores \<open>MATCH\<close> and is logged
  as found. Line 347 then replaces it: the result is \<open>found\<close> with \<open>robert\<close>.
\<close>

theorem match_replaced_by_single_partial:
  "ldap_jira_match ex_self ex_ldap_bob acc_robert = PARTIAL_MATCH
   \<and> ldap_jira_match ex_self ex_ldap_bob acc_bob = MATCH
   \<and> name acc_bob = Some ''bob''
   \<and> process_username ex_self (ex_world [acc_robert] [acc_bob]) ''bob'' =
       Inr (\<lparr> username_key = Some ''bob'', status_key = Some ''found'',
               jira_account_key = Some ''robert'', jira_results_key = None \<rparr>,
            [ldap_query_event ex_self ''bob'', JiraSearch ''bob'' 10, JiraSearch ''Bob Smith'' 10,
             LogUpdateUser INFO ''found'' ''bob'' (Text []),
             LogUpdateUser INFO ''found'' ''robert'' (Text ''Single Partial'')])"
  by (simp add: ex_run_bug ex_scores ex_names)

end
